theory Spec2Isabelle
  imports Complex_Main "HOL-Library.Multiset" "HOL-Library.Code_Target_Numeral"
    "HOL-Library.Char_ord" "HOL-Library.List_Lexorder"
begin

section \<open>The campus marketplace backend: data model\<close>

text \<open>
  The backend is a set of HTTP handlers (package \<open>handlers\<close>) over one relational
  store (\<open>database.DB\<close>, SQLite through an object-relational mapper).  A handler is
  modelled as a function from the store, the authenticated caller and the decoded
  request to the new store and the response (HTTP status and JSON body).

  Conventions of the model:
  \<^item> identifiers (\<open>uint\<close>) are natural numbers; a table never holds \<open>2 ^ 63\<close> rows, so
    identifiers do not wrap;
  \<^item> \<open>time.Time\<close> is a natural number (a clock reading); one reading \<open>now\<close> is
    taken per request, also for the \<open>created_at\<close>/\<open>updated_at\<close> stamps that the
    mapper sets by itself;
  \<^item> Go \<open>int\<close>/\<open>int64\<close> values are integers with the 64-bit wrap-around written out
    (\<open>wrap64\<close>);
  \<^item> \<open>float64\<close> prices are real numbers (prices arrive as JSON decimals, and only
    comparisons with zero are made on them);
  \<^item> strings are byte strings; \<open>strings.ToLower\<close> is modelled on ASCII letters;
  \<^item> a table is the list of its rows in insertion order; rows are never removed
    physically: a delete sets \<open>DeletedAt\<close>, and every query skips the rows that
    have it set.  The column is kept for listings, listing images and notifications,
    which have a delete path; no handler deletes a user, a chat or a message, so
    their rows carry no \<open>DeletedAt\<close> in the model;
  \<^item> the associations that \<open>Preload\<close> joins into a response (category, seller,
    images, sender) are not part of the modelled response bodies;
  \<^item> failures of the store other than the ones its schema causes (a unique index)
    are not modelled.
\<close>

type_synonym uint = nat
type_synonym time = nat

subsection \<open>models: rows of the tables\<close>

type_synonym ListingStatus = string

definition StatusActive :: ListingStatus where "StatusActive = ''active''"
definition StatusSold :: ListingStatus where "StatusSold = ''sold''"
definition StatusInactive :: ListingStatus where "StatusInactive = ''inactive''"

type_synonym NotificationType = string

definition NotificationNewMessage :: NotificationType where
  "NotificationNewMessage = ''new_message''"

record User =
  U_ID :: uint
  U_CreatedAt :: time
  U_UpdatedAt :: time
  U_Email :: string
  U_Password :: string
  U_FirstName :: string
  U_LastName :: string
  U_ProfileImage :: string
  U_Phone :: string
  U_Bio :: string
  U_IsAdmin :: bool

record UserResponse =
  UR_ID :: uint
  UR_Email :: string
  UR_FirstName :: string
  UR_LastName :: string
  UR_ProfileImage :: string
  UR_Phone :: string
  UR_Bio :: string
  UR_IsAdmin :: bool
  UR_CreatedAt :: time

definition ToResponse :: "User \<Rightarrow> UserResponse" where
  "ToResponse u =
     \<lparr>UR_ID = U_ID u, UR_Email = U_Email u, UR_FirstName = U_FirstName u,
      UR_LastName = U_LastName u, UR_ProfileImage = U_ProfileImage u,
      UR_Phone = U_Phone u, UR_Bio = U_Bio u, UR_IsAdmin = U_IsAdmin u,
      UR_CreatedAt = U_CreatedAt u\<rparr>"

record Listing =
  L_ID :: uint
  L_CreatedAt :: time
  L_UpdatedAt :: time
  L_DeletedAt :: "time option"
  L_Title :: string
  L_Description :: string
  L_Price :: real
  L_CategoryID :: uint
  L_SellerID :: uint
  L_Status :: ListingStatus
  L_Condition :: string
  L_Location :: string
  L_Views :: int

record ListingImage =
  I_ID :: uint
  I_CreatedAt :: time
  I_DeletedAt :: "time option"
  I_ListingID :: uint
  I_ImageURL :: string
  I_IsPrimary :: bool

record Chat =
  C_ID :: uint
  C_CreatedAt :: time
  C_UpdatedAt :: time
  C_ListingID :: uint
  C_BuyerID :: uint
  C_SellerID :: uint

record Message =
  M_ID :: uint
  M_CreatedAt :: time
  M_UpdatedAt :: time
  M_ChatID :: uint
  M_SenderID :: uint
  M_Content :: string
  M_IsRead :: bool
  M_ReadAt :: "time option"

record Notification =
  N_ID :: uint
  N_CreatedAt :: time
  N_UpdatedAt :: time
  N_DeletedAt :: "time option"
  N_UserID :: uint
  N_Type :: NotificationType
  N_Title :: string
  N_Message :: string
  N_Link :: string
  N_IsRead :: bool
  N_ReadAt :: "time option"

subsection \<open>database: the store\<close>

record DB =
  users :: "User list"
  listings :: "Listing list"
  listing_images :: "ListingImage list"
  chats :: "Chat list"
  messages :: "Message list"
  notifications :: "Notification list"

definition empty_DB :: DB where
  "empty_DB = \<lparr>users = [], listings = [], listing_images = [], chats = [],
                messages = [], notifications = []\<rparr>"

text \<open>
  \<open>First\<close> runs \<open>SELECT ... WHERE cond ORDER BY id LIMIT 1\<close>: among the rows that
  satisfy the condition, the one with the least primary key; \<open>None\<close> stands for
  \<open>ErrRecordNotFound\<close>.
\<close>

definition First :: "('a \<Rightarrow> uint) \<Rightarrow> ('a \<Rightarrow> bool) \<Rightarrow> 'a list \<Rightarrow> 'a option" where
  "First pk cond rows =
     (case filter cond rows of [] \<Rightarrow> None | r # rs \<Rightarrow> Some (arg_min_list pk (r # rs)))"

text \<open>The primary key that \<open>Create\<close> assigns: one more than every key in use.\<close>

definition next_id :: "uint list \<Rightarrow> uint" where
  "next_id ids = Suc (fold max ids 0)"

text \<open>\<open>UPDATE ... WHERE cond\<close> rewrites the matching rows in place.\<close>

definition update_where :: "('a \<Rightarrow> bool) \<Rightarrow> ('a \<Rightarrow> 'a) \<Rightarrow> 'a list \<Rightarrow> 'a list" where
  "update_where cond f rows = map (\<lambda>r. if cond r then f r else r) rows"

definition first_listing :: "DB \<Rightarrow> uint \<Rightarrow> Listing option" where
  "first_listing s i = First L_ID (\<lambda>l. L_ID l = i \<and> L_DeletedAt l = None) (listings s)"

definition first_chat :: "DB \<Rightarrow> uint \<Rightarrow> Chat option" where
  "first_chat s i = First C_ID (\<lambda>c. C_ID c = i) (chats s)"

definition first_notification :: "DB \<Rightarrow> uint \<Rightarrow> Notification option" where
  "first_notification s i =
     First N_ID (\<lambda>n. N_ID n = i \<and> N_DeletedAt n = None) (notifications s)"

definition create_chat :: "time \<Rightarrow> DB \<Rightarrow> uint \<Rightarrow> uint \<Rightarrow> uint \<Rightarrow> DB \<times> Chat" where
  "create_chat now s listingID buyerID sellerID =
     (let chat = \<lparr>C_ID = next_id (map C_ID (chats s)), C_CreatedAt = now,
                  C_UpdatedAt = now, C_ListingID = listingID, C_BuyerID = buyerID,
                  C_SellerID = sellerID\<rparr>
      in (s\<lparr>chats := chats s @ [chat]\<rparr>, chat))"

definition create_message :: "time \<Rightarrow> DB \<Rightarrow> uint \<Rightarrow> uint \<Rightarrow> string \<Rightarrow> DB \<times> Message" where
  "create_message now s chatID senderID content =
     (let message = \<lparr>M_ID = next_id (map M_ID (messages s)), M_CreatedAt = now,
                     M_UpdatedAt = now, M_ChatID = chatID, M_SenderID = senderID,
                     M_Content = content, M_IsRead = False, M_ReadAt = None\<rparr>
      in (s\<lparr>messages := messages s @ [message]\<rparr>, message))"

definition create_notification ::
  "time \<Rightarrow> DB \<Rightarrow> uint \<Rightarrow> NotificationType \<Rightarrow> string \<Rightarrow> string \<Rightarrow> string \<Rightarrow> DB" where
  "create_notification now s userID ty title msg link =
     s\<lparr>notifications := notifications s @
        [\<lparr>N_ID = next_id (map N_ID (notifications s)), N_CreatedAt = now,
          N_UpdatedAt = now, N_DeletedAt = None, N_UserID = userID, N_Type = ty,
          N_Title = title, N_Message = msg, N_Link = link, N_IsRead = False,
          N_ReadAt = None\<rparr>]\<rparr>"

definition touch_chat :: "time \<Rightarrow> DB \<Rightarrow> uint \<Rightarrow> DB" where
  \<comment> \<open>\<open>Model(&chat).Update("updated_at", time.Now())\<close>\<close>
  "touch_chat now s chatID =
     s\<lparr>chats := update_where (\<lambda>c. C_ID c = chatID) (\<lambda>c. c\<lparr>C_UpdatedAt := now\<rparr>) (chats s)\<rparr>"

subsection \<open>strconv\<close>

definition is_digit :: "char \<Rightarrow> bool" where
  "is_digit c = (48 \<le> (of_char c :: nat) \<and> (of_char c :: nat) \<le> 57)"

definition decimal :: "string \<Rightarrow> nat" where
  "decimal ds = foldl (\<lambda>a c. 10 * a + ((of_char c :: nat) - 48)) 0 ds"

definition ParseUint32 :: "string \<Rightarrow> uint option" where
  \<comment> \<open>\<open>strconv.ParseUint(s, 10, 32)\<close>: digits only, no sign, below \<open>2 ^ 32\<close>\<close>
  "ParseUint32 s =
     (if s = [] \<or> \<not> list_all is_digit s then None
      else if decimal s < 2 ^ 32 then Some (decimal s) else None)"

definition digit_char :: "nat \<Rightarrow> char" where
  "digit_char d = ''0123456789'' ! d"

fun Itoa :: "nat \<Rightarrow> string" where
  \<comment> \<open>\<open>strconv.Itoa\<close> on a non-negative value\<close>
  "Itoa n = (if n < 10 then [digit_char n] else Itoa (n div 10) @ [digit_char (n mod 10)])"

declare Itoa.simps [simp del]

subsection \<open>Responses\<close>

datatype body =
    ErrorBody string
  | BindError
  | Recovered
  | MessageBody string
  | ChatMessageBody uint Message
  | MessagesBody "Message list"
  | ListingBody Listing
  | ListingsBody "Listing list" int int int int
  | AuthBody string UserResponse

text \<open>
  \<open>ErrorBody m\<close> is \<open>gin.H{"error": m}\<close> and \<open>MessageBody m\<close> is
  \<open>gin.H{"message": m}\<close>; \<open>BindError\<close> is the error body whose text the JSON binder
  writes; \<open>Recovered\<close> is the empty 500 response of the recovery middleware after a
  panic; \<open>ChatMessageBody\<close> carries \<open>chat_id\<close> and \<open>message\<close>; \<open>ListingsBody\<close>
  carries \<open>listings\<close>, \<open>total\<close>, \<open>page\<close>, \<open>limit\<close> and \<open>pages\<close>.
\<close>

type_synonym response = "nat \<times> body"

definition status :: "DB \<times> response \<Rightarrow> nat" where
  "status r = fst (snd r)"

definition body_of :: "DB \<times> response \<Rightarrow> body" where
  "body_of r = snd (snd r)"

section \<open>handlers: chats\<close>

record CreateChatInput =
  CC_ListingID :: uint
  CC_Message :: string

definition bind_CreateChatInput :: "CreateChatInput option \<Rightarrow> CreateChatInput option" where
  \<comment> \<open>\<open>ShouldBindJSON\<close>: the body decodes and both \<open>required\<close> fields are non-zero\<close>
  "bind_CreateChatInput b =
     (case b of None \<Rightarrow> None
      | Some input \<Rightarrow> if CC_ListingID input = 0 \<or> CC_Message input = [] then None else Some input)"

definition CreateChat :: "time \<Rightarrow> DB \<Rightarrow> uint \<Rightarrow> CreateChatInput option \<Rightarrow> DB \<times> response" where
  "CreateChat now s userID b =
     (case bind_CreateChatInput b of
        None \<Rightarrow> (s, 400, BindError)
      | Some input \<Rightarrow>
         (case first_listing s (CC_ListingID input) of
            None \<Rightarrow> (s, 404, ErrorBody ''Listing not found'')
          | Some listing \<Rightarrow>
             if L_SellerID listing = userID
             then (s, 400, ErrorBody ''Cannot message your own listing'')
             else
               (case First C_ID (\<lambda>c. C_ListingID c = CC_ListingID input \<and> C_BuyerID c = userID)
                       (chats s) of
                  Some existingChat \<Rightarrow>
                    (let (s1, message) =
                           create_message now s (C_ID existingChat) userID (CC_Message input);
                         s2 = touch_chat now s1 (C_ID existingChat)
                     in (s2, 200, ChatMessageBody (C_ID existingChat) message))
                | None \<Rightarrow>
                    (let (s1, chat) =
                           create_chat now s (CC_ListingID input) userID (L_SellerID listing);
                         (s2, message) = create_message now s1 (C_ID chat) userID (CC_Message input);
                         s3 = create_notification now s2 (L_SellerID listing)
                                NotificationNewMessage ''New Message''
                                (''You have a new message about your listing: '' @ L_Title listing)
                                (''/chat/'' @ Itoa (C_ID chat))
                     in (s3, 201, ChatMessageBody (C_ID chat) message)))))"


definition GetChatMessages :: "time \<Rightarrow> DB \<Rightarrow> uint \<Rightarrow> string \<Rightarrow> DB \<times> response" where
  "GetChatMessages now s userID idStr =
     (case ParseUint32 idStr of
        None \<Rightarrow> (s, 400, ErrorBody ''Invalid chat ID'')
      | Some i \<Rightarrow>
         (case first_chat s i of
            None \<Rightarrow> (s, 404, ErrorBody ''Chat not found'')
          | Some chat \<Rightarrow>
             if C_BuyerID chat \<noteq> userID \<and> C_SellerID chat \<noteq> userID
             then (s, 403, ErrorBody ''Not authorized to view this chat'')
             else
               (let msgs = sort_key M_CreatedAt (filter (\<lambda>m. M_ChatID m = i) (messages s));
                    s' = s\<lparr>messages :=
                           update_where
                             (\<lambda>m. M_ChatID m = i \<and> M_SenderID m \<noteq> userID \<and> M_IsRead m = False)
                             (\<lambda>m. m\<lparr>M_IsRead := True, M_ReadAt := Some now, M_UpdatedAt := now\<rparr>)
                             (messages s)\<rparr>
                in (s', 200, MessagesBody msgs))))"

section \<open>handlers: notifications\<close>

definition MarkNotificationRead :: "time \<Rightarrow> DB \<Rightarrow> uint \<Rightarrow> string \<Rightarrow> DB \<times> response" where
  "MarkNotificationRead now s userID idStr =
     (case ParseUint32 idStr of
        None \<Rightarrow> (s, 400, ErrorBody ''Invalid notification ID'')
      | Some i \<Rightarrow>
         (case first_notification s i of
            None \<Rightarrow> (s, 404, ErrorBody ''Notification not found'')
          | Some notification \<Rightarrow>
             if N_UserID notification \<noteq> userID
             then (s, 403, ErrorBody ''Not authorized'')
             else
               (let s' = s\<lparr>notifications :=
                           update_where
                             (\<lambda>n. N_ID n = N_ID notification \<and> N_DeletedAt n = None)
                             (\<lambda>n. n\<lparr>N_IsRead := True, N_ReadAt := Some now, N_UpdatedAt := now\<rparr>)
                             (notifications s)\<rparr>
                in (s', 200, MessageBody ''Marked as read''))))"

section \<open>handlers: listings\<close>

subsection \<open>Go integers\<close>

definition wrap64 :: "int \<Rightarrow> int" where
  \<comment> \<open>the value of a 64-bit signed result: two's-complement wrap-around\<close>
  "wrap64 x = (x + 2 ^ 63) mod 2 ^ 64 - 2 ^ 63"

definition tdiv :: "int \<Rightarrow> int \<Rightarrow> int" where
  \<comment> \<open>Go's \<open>/\<close> on integers truncates towards zero\<close>
  "tdiv a b = sgn a * sgn b * (\<bar>a\<bar> div \<bar>b\<bar>)"

definition Atoi :: "string \<Rightarrow> int" where
  \<comment> \<open>\<open>strconv.Atoi\<close> with its error dropped: 0 on a syntax error, the nearest
      64-bit bound on a range error\<close>
  "Atoi s =
     (case s of
        [] \<Rightarrow> 0
      | c # cs \<Rightarrow>
         (let neg = (c = CHR ''-'');
              ds = (if c = CHR ''-'' \<or> c = CHR ''+'' then cs else s)
          in if ds = [] \<or> \<not> list_all is_digit ds then 0
             else if neg then (if int (decimal ds) > 2 ^ 63 then - (2 ^ 63) else - int (decimal ds))
             else (if int (decimal ds) \<ge> 2 ^ 63 then 2 ^ 63 - 1 else int (decimal ds))))"

definition DefaultQuery :: "string option \<Rightarrow> string \<Rightarrow> string" where
  "DefaultQuery v d = (case v of None \<Rightarrow> d | Some x \<Rightarrow> x)"

subsection \<open>The SQL engine\<close>

text \<open>
  \<open>GetListings\<close> hands text of the request to SQLite: the \<open>LIKE\<close> pattern and the
  values compared with the numeric columns \<open>category_id\<close> and \<open>price\<close>, which are
  bound as text parameters, and the request's \<open>sort\<close> and \<open>order\<close>, which are
  joined by a blank and spliced, as they are, into the statement after \<open>ORDER BY\<close>
  and in front of the \<open>LIMIT\<close> and \<open>OFFSET\<close> that the mapper appends.  What SQLite
  makes of them is a parameter of the model.

  \<open>sql_find clause offset limit rows\<close> is the result of the page query on the rows
  that satisfy the \<open>WHERE\<close> clause, for the spliced text \<open>clause\<close> and the values
  given to \<open>Offset\<close> and \<open>Limit\<close>: the rows returned, or \<open>None\<close> when the
  statement is not valid SQL.  The spliced text is not confined to an ordering: a
  text that ends in a comment opener, for one, removes the \<open>LIMIT\<close> and \<open>OFFSET\<close>
  from the statement.
\<close>

record SQL =
  sql_like :: "string \<Rightarrow> string \<Rightarrow> bool"
  sql_eq_uint :: "uint \<Rightarrow> string \<Rightarrow> bool"
  sql_ge :: "real \<Rightarrow> string \<Rightarrow> bool"
  sql_le :: "real \<Rightarrow> string \<Rightarrow> bool"
  sql_find :: "string \<Rightarrow> int \<Rightarrow> int \<Rightarrow> Listing list \<Rightarrow> Listing list option"

record ListingsQuery =
  q_page :: "string option"
  q_limit :: "string option"
  q_search :: string
  q_category_id :: string
  q_min_price :: string
  q_max_price :: string
  q_condition :: string
  q_sort :: "string option"
  q_order :: "string option"

definition matching :: "SQL \<Rightarrow> ListingsQuery \<Rightarrow> Listing \<Rightarrow> bool" where
  \<comment> \<open>the \<open>WHERE\<close> clause that \<open>GetListings\<close> builds, on rows that are not soft-deleted\<close>
  "matching eng q l =
     (L_DeletedAt l = None \<and> L_Status l = StatusActive \<and>
      (q_search q = [] \<or>
         sql_like eng (L_Title l) (''%'' @ q_search q @ ''%'') \<or>
         sql_like eng (L_Description l) (''%'' @ q_search q @ ''%'')) \<and>
      (q_category_id q = [] \<or> sql_eq_uint eng (L_CategoryID l) (q_category_id q)) \<and>
      (q_min_price q = [] \<or> sql_ge eng (L_Price l) (q_min_price q)) \<and>
      (q_max_price q = [] \<or> sql_le eng (L_Price l) (q_max_price q)) \<and>
      (q_condition q = [] \<or> L_Condition l = q_condition q))"

definition GetListings :: "SQL \<Rightarrow> DB \<Rightarrow> ListingsQuery \<Rightarrow> DB \<times> response" where
  "GetListings eng s q =
     (let page = Atoi (DefaultQuery (q_page q) ''1'');
          limit = Atoi (DefaultQuery (q_limit q) ''20'');
          sortBy = DefaultQuery (q_sort q) ''created_at'';
          sortOrder = DefaultQuery (q_order q) ''desc'';
          offset = wrap64 (wrap64 (page - 1) * limit);
          rows = filter (matching eng q) (listings s);
          total = int (length rows)
      in case sql_find eng (sortBy @ '' '' @ sortOrder) offset limit rows of
           None \<Rightarrow> (s, 500, ErrorBody ''Error fetching listings'')
         | Some found \<Rightarrow>
             if limit = 0 then (s, 500, Recovered)
             else (s, 200,
                   ListingsBody found total page limit
                     (wrap64 (tdiv (wrap64 (wrap64 (total + limit) - 1)) limit))))"

definition GetListing :: "time \<Rightarrow> DB \<Rightarrow> string \<Rightarrow> DB \<times> response" where
  "GetListing now s idStr =
     (case ParseUint32 idStr of
        None \<Rightarrow> (s, 400, ErrorBody ''Invalid listing ID'')
      | Some i \<Rightarrow>
         (case first_listing s i of
            None \<Rightarrow> (s, 404, ErrorBody ''Listing not found'')
          | Some listing \<Rightarrow>
             (let bump = (\<lambda>l. l\<lparr>L_Views := wrap64 (L_Views listing + 1), L_UpdatedAt := now\<rparr>);
                  s' = s\<lparr>listings :=
                         update_where (\<lambda>l. L_ID l = L_ID listing \<and> L_DeletedAt l = None) bump
                           (listings s)\<rparr>
              in (s', 200, ListingBody (bump listing)))))"

record UpdateListingInput =
  UL_Title :: string
  UL_Description :: string
  UL_Price :: real
  UL_CategoryID :: uint
  UL_Condition :: string
  UL_Location :: string
  UL_Status :: string
  UL_Images :: "string list"

definition merge_listing :: "Listing \<Rightarrow> UpdateListingInput \<Rightarrow> Listing" where
  \<comment> \<open>the chain of \<open>if input.X != zero { listing.X = input.X }\<close>\<close>
  "merge_listing listing input =
     (let l1 = (if UL_Title input \<noteq> [] then listing\<lparr>L_Title := UL_Title input\<rparr> else listing);
          l2 = (if UL_Description input \<noteq> [] then l1\<lparr>L_Description := UL_Description input\<rparr> else l1);
          l3 = (if UL_Price input > 0 then l2\<lparr>L_Price := UL_Price input\<rparr> else l2);
          l4 = (if UL_CategoryID input > 0 then l3\<lparr>L_CategoryID := UL_CategoryID input\<rparr> else l3);
          l5 = (if UL_Condition input \<noteq> [] then l4\<lparr>L_Condition := UL_Condition input\<rparr> else l4);
          l6 = (if UL_Location input \<noteq> [] then l5\<lparr>L_Location := UL_Location input\<rparr> else l5)
      in if UL_Status input \<noteq> [] then l6\<lparr>L_Status := UL_Status input\<rparr> else l6)"

definition create_image :: "time \<Rightarrow> DB \<Rightarrow> uint \<Rightarrow> string \<Rightarrow> bool \<Rightarrow> DB" where
  "create_image now s listingID url isPrimary =
     s\<lparr>listing_images := listing_images s @
        [\<lparr>I_ID = next_id (map I_ID (listing_images s)), I_CreatedAt = now, I_DeletedAt = None,
          I_ListingID = listingID, I_ImageURL = url, I_IsPrimary = isPrimary\<rparr>]\<rparr>"

definition replace_images :: "time \<Rightarrow> DB \<Rightarrow> uint \<Rightarrow> string list \<Rightarrow> DB" where
  "replace_images now s listingID urls =
     (let s1 = s\<lparr>listing_images :=
                  update_where (\<lambda>i. I_ListingID i = listingID \<and> I_DeletedAt i = None)
                    (\<lambda>i. i\<lparr>I_DeletedAt := Some now\<rparr>) (listing_images s)\<rparr>
      in foldl (\<lambda>st (i, url). create_image now st listingID url (i = 0)) s1 (enumerate 0 urls))"

definition UpdateListing ::
  "time \<Rightarrow> DB \<Rightarrow> uint \<Rightarrow> string \<Rightarrow> UpdateListingInput option \<Rightarrow> DB \<times> response" where
  "UpdateListing now s userID idStr b =
     (case ParseUint32 idStr of
        None \<Rightarrow> (s, 400, ErrorBody ''Invalid listing ID'')
      | Some i \<Rightarrow>
         (case first_listing s i of
            None \<Rightarrow> (s, 404, ErrorBody ''Listing not found'')
          | Some listing \<Rightarrow>
             if L_SellerID listing \<noteq> userID
             then (s, 403, ErrorBody ''Not authorized to update this listing'')
             else
               (case b of
                  None \<Rightarrow> (s, 400, BindError)
                | Some input \<Rightarrow>
                   (let saved = (merge_listing listing input)\<lparr>L_UpdatedAt := now\<rparr>;
                        s1 = s\<lparr>listings :=
                               update_where (\<lambda>l. L_ID l = L_ID listing \<and> L_DeletedAt l = None)
                                 (\<lambda>l. saved) (listings s)\<rparr>;
                        s2 = (if length (UL_Images input) > 0
                              then replace_images now s1 (L_ID listing) (UL_Images input)
                              else s1)
                    in (s2, 200,
                        ListingBody (case first_listing s2 (L_ID listing) of
                                       Some reloaded \<Rightarrow> reloaded | None \<Rightarrow> saved))))))"

section \<open>handlers: authentication\<close>

text \<open>
  Package \<open>utils\<close> (password hashing, token signing) and the binder's \<open>email\<close>
  format check are parameters of the model.
\<close>

record Utils =
  valid_email :: "string \<Rightarrow> bool"
  HashPassword :: "string \<Rightarrow> string option"
  CheckPassword :: "string \<Rightarrow> string \<Rightarrow> bool"
  GenerateToken :: "time \<Rightarrow> uint \<Rightarrow> string \<Rightarrow> bool \<Rightarrow> string option"

definition ToLower_char :: "char \<Rightarrow> char" where
  "ToLower_char c =
     (case map_of (zip ''ABCDEFGHIJKLMNOPQRSTUVWXYZ'' ''abcdefghijklmnopqrstuvwxyz'') c of
        Some d \<Rightarrow> d | None \<Rightarrow> c)"

definition ToLower :: "string \<Rightarrow> string" where
  "ToLower s = map ToLower_char s"

definition HasSuffix :: "string \<Rightarrow> string \<Rightarrow> bool" where
  "HasSuffix s suf = (length suf \<le> length s \<and> drop (length s - length suf) s = suf)"

record RegisterInput =
  R_Email :: string
  R_Password :: string
  R_FirstName :: string
  R_LastName :: string

record LoginInput =
  LI_Email :: string
  LI_Password :: string

definition first_user_by_email :: "DB \<Rightarrow> string \<Rightarrow> User option" where
  \<comment> \<open>\<open>Where("email = ?", e).First(&user)\<close>: text equality, case-sensitive\<close>
  "first_user_by_email s e = First U_ID (\<lambda>u. U_Email u = e) (users s)"

definition create_user :: "time \<Rightarrow> DB \<Rightarrow> string \<Rightarrow> string \<Rightarrow> string \<Rightarrow> string \<Rightarrow> (DB \<times> User) option" where
  \<comment> \<open>\<open>Create(&user)\<close>: the unique index on \<open>email\<close> rejects a duplicate\<close>
  "create_user now s email password firstName lastName =
     (if email \<in> set (map U_Email (users s)) then None
      else
        (let user = \<lparr>U_ID = next_id (map U_ID (users s)), U_CreatedAt = now, U_UpdatedAt = now,
                      U_Email = email, U_Password = password, U_FirstName = firstName,
                      U_LastName = lastName, U_ProfileImage = [], U_Phone = [], U_Bio = [],
                      U_IsAdmin = False\<rparr>
         in Some (s\<lparr>users := users s @ [user]\<rparr>, user)))"

definition Register :: "Utils \<Rightarrow> time \<Rightarrow> DB \<Rightarrow> RegisterInput option \<Rightarrow> DB \<times> response" where
  "Register env now s b =
     (case b of
        None \<Rightarrow> (s, 400, ErrorBody ''Please fill in all required fields'')
      | Some input \<Rightarrow>
         if R_Email input = [] \<or> \<not> valid_email env (R_Email input)
         then (s, 400, ErrorBody ''Please enter a valid email address'')
         else if length (R_Password input) < 6
         then (s, 400, ErrorBody ''Password must be at least 6 characters'')
         else if R_FirstName input = [] \<or> R_LastName input = []
         then (s, 400, ErrorBody ''First name and last name are required'')
         else if \<not> HasSuffix (ToLower (R_Email input)) ''@ufl.edu''
         then (s, 400, ErrorBody ''Must use a valid UF email (@ufl.edu)'')
         else
           (case first_user_by_email s (R_Email input) of
              Some existingUser \<Rightarrow>
                (s, 409, ErrorBody
                  ''An account with this email already exists. Please login or use a different email.'')
            | None \<Rightarrow>
               (case HashPassword env (R_Password input) of
                  None \<Rightarrow> (s, 500, ErrorBody ''Error processing password'')
                | Some hashedPassword \<Rightarrow>
                   (case create_user now s (ToLower (R_Email input)) hashedPassword
                           (R_FirstName input) (R_LastName input) of
                      None \<Rightarrow> (s, 500, ErrorBody ''Error creating user'')
                    | Some (s', user) \<Rightarrow>
                       (case GenerateToken env now (U_ID user) (U_Email user) (U_IsAdmin user) of
                          None \<Rightarrow> (s', 500, ErrorBody ''Error generating token'')
                        | Some token \<Rightarrow> (s', 201, AuthBody token (ToResponse user)))))))"

definition Login :: "Utils \<Rightarrow> time \<Rightarrow> DB \<Rightarrow> LoginInput option \<Rightarrow> DB \<times> response" where
  "Login env now s b =
     (case b of
        None \<Rightarrow> (s, 400, ErrorBody ''Please enter email and password'')
      | Some input \<Rightarrow>
         if LI_Email input = [] \<or> \<not> valid_email env (LI_Email input)
         then (s, 400, ErrorBody ''Please enter a valid email address'')
         else if LI_Password input = []
         then (s, 400, ErrorBody ''Password is required'')
         else
           (case first_user_by_email s (ToLower (LI_Email input)) of
              None \<Rightarrow> (s, 401, ErrorBody ''Invalid email or password. Please try again.'')
            | Some user \<Rightarrow>
               if \<not> CheckPassword env (LI_Password input) (U_Password user)
               then (s, 401, ErrorBody ''Invalid email or password. Please try again.'')
               else
                 (case GenerateToken env now (U_ID user) (U_Email user) (U_IsAdmin user) of
                    None \<Rightarrow> (s, 500, ErrorBody ''Error generating token'')
                  | Some token \<Rightarrow> (s, 200, AuthBody token (ToResponse user)))))"

section \<open>Derived notions and example data\<close>

text \<open>
  The pair that identifies a chat thread, and projections of the listing search
  response.  \<open>ceil_pages\<close> is the page count as the specification words it; the
  handler computes \<open>(total + limit - 1) / limit\<close> in 64-bit integers.
\<close>

definition chat_key :: "Chat \<Rightarrow> uint \<times> uint" where
  "chat_key c = (C_ListingID c, C_BuyerID c)"

definition page_items :: "DB \<times> response \<Rightarrow> Listing list" where
  "page_items r = (case body_of r of ListingsBody ls n p l k \<Rightarrow> ls | _ \<Rightarrow> [])"



definition page_of :: "string option \<Rightarrow> int" where
  \<comment> \<open>the page number that \<open>GetListings\<close> reads from the \<open>page\<close> parameter\<close>
  "page_of x = Atoi (DefaultQuery x ''1'')"

definition limit_of :: "ListingsQuery \<Rightarrow> int" where
  \<comment> \<open>the page size that \<open>GetListings\<close> reads from the \<open>limit\<close> parameter\<close>
  "limit_of q = Atoi (DefaultQuery (q_limit q) ''20'')"

definition order_clause :: "ListingsQuery \<Rightarrow> string" where
  "order_clause q = DefaultQuery (q_sort q) ''created_at'' @ '' '' @ DefaultQuery (q_order q) ''desc''"

definition matching_rows :: "SQL \<Rightarrow> DB \<Rightarrow> ListingsQuery \<Rightarrow> Listing list" where
  "matching_rows eng s q = filter (matching eng q) (listings s)"




definition finds_among :: "SQL \<Rightarrow> bool" where
  "finds_among eng =
     (\<forall>clause offset limit rows found.
        sql_find eng clause offset limit rows = Some found \<longrightarrow> set found \<subseteq> set rows)"

subsection \<open>An example engine\<close>

text \<open>
  The engine of the examples follows SQLite on a fragment of what a request can
  send.  \<open>LIKE\<close> is SQLite's: \<open>%\<close> stands for any text, \<open>_\<close> for one character, letters
  match without regard to case.  A text compared with a numeric column is read as a
  number when it is a decimal literal (sign, digits, fraction, exponent, blanks
  around it) and compared as one; any other text is greater than every number.
  Of the spliced \<open>ORDER BY\<close> texts it knows a column of the table, followed or not by
  \<open>asc\<close> or \<open>desc\<close>, followed or not by a \<open>--\<close> comment that runs to the end of the
  statement and so removes the \<open>LIMIT\<close> and \<open>OFFSET\<close>; rows with equal keys stay in
  insertion order.  Any other text is outside the fragment and answered as an SQL
  error.  The mapper emits an \<open>OFFSET\<close> only for a positive value and a \<open>LIMIT\<close> only
  for a non-negative one.
\<close>

definition is_space :: "char \<Rightarrow> bool" where
  "is_space c = (c \<in> set [CHR '' '', CHR 0x09, CHR 0x0A, CHR 0x0B, CHR 0x0C, CHR 0x0D])"

fun like_match :: "string \<Rightarrow> string \<Rightarrow> bool" where
  "like_match [] t = (t = [])"
| "like_match (p # ps) t =
     (if p = CHR ''%''
      then like_match ps t \<or> (case t of [] \<Rightarrow> False | c # cs \<Rightarrow> like_match (p # ps) cs)
      else (case t of
              [] \<Rightarrow> False
            | c # cs \<Rightarrow> (p = CHR ''_'' \<or> ToLower_char p = ToLower_char c) \<and> like_match ps cs))"

definition exponent_of :: "string \<Rightarrow> int option" where
  "exponent_of t =
     (case t of
        [] \<Rightarrow> Some 0
      | c # cs \<Rightarrow>
         if c = CHR ''e'' \<or> c = CHR ''E''
         then (let neg = (cs \<noteq> [] \<and> hd cs = CHR ''-'');
                   ds = (if cs \<noteq> [] \<and> (hd cs = CHR ''-'' \<or> hd cs = CHR ''+'') then tl cs else cs)
               in if ds = [] \<or> \<not> list_all is_digit ds then None
                  else Some (if neg then - int (decimal ds) else int (decimal ds)))
         else None)"

definition sqlite_number :: "string \<Rightarrow> real option" where
  "sqlite_number v =
     (let t = dropWhile is_space v;
          neg = (t \<noteq> [] \<and> hd t = CHR ''-'');
          u = (if t \<noteq> [] \<and> (hd t = CHR ''-'' \<or> hd t = CHR ''+'') then tl t else t);
          ip = takeWhile is_digit u;
          r1 = dropWhile is_digit u;
          dot = (r1 \<noteq> [] \<and> hd r1 = CHR ''.'');
          fp = (if dot then takeWhile is_digit (tl r1) else []);
          r2 = (if dot then dropWhile is_digit (tl r1) else r1)
      in if ip = [] \<and> fp = [] then None
         else
           (case exponent_of (rev (dropWhile is_space (rev r2))) of
              None \<Rightarrow> None
            | Some e \<Rightarrow>
               (let m = real (decimal (ip @ fp)) / 10 ^ length fp;
                    x = (if e \<ge> 0 then m * 10 ^ nat e else m / 10 ^ nat (- e))
                in Some (if neg then - x else x))))"

fun cut_comment :: "string \<Rightarrow> string \<times> bool" where
  "cut_comment (c # d # cs) =
     (if c = CHR ''-'' \<and> d = CHR ''-'' then ([], True)
      else (let (r, b) = cut_comment (d # cs) in (c # r, b)))"
| "cut_comment cs = (cs, False)"

definition split_words :: "string \<Rightarrow> string list" where
  "split_words t =
     filter (\<lambda>w. w \<noteq> [])
       (foldr (\<lambda>c acc. if is_space c then [] # acc else (c # hd acc) # tl acc) t [[]])"

definition ex_order :: "string \<Rightarrow> (string \<times> bool \<times> bool) option" where
  \<comment> \<open>the column, whether the order is descending, whether a comment follows\<close>
  "ex_order clause =
     (let (t, comment) = cut_comment clause
      in if comment \<and> CHR 0x0A \<in> set clause then None
         else
           (case split_words t of
              [col] \<Rightarrow> Some (ToLower col, False, comment)
            | [col, dir] \<Rightarrow>
                if ToLower dir = ''asc'' then Some (ToLower col, False, comment)
                else if ToLower dir = ''desc'' then Some (ToLower col, True, comment)
                else None
            | _ \<Rightarrow> None))"

definition ex_column :: "string \<Rightarrow> (Listing list \<Rightarrow> Listing list) option" where
  "ex_column col =
     (if col = ''id'' then Some (sort_key L_ID)
      else if col = ''created_at'' then Some (sort_key L_CreatedAt)
      else if col = ''updated_at'' then Some (sort_key L_UpdatedAt)
      else if col = ''deleted_at'' then Some (\<lambda>rows. rows)
      else if col = ''title'' then Some (sort_key L_Title)
      else if col = ''description'' then Some (sort_key L_Description)
      else if col = ''price'' then Some (sort_key L_Price)
      else if col = ''category_id'' then Some (sort_key L_CategoryID)
      else if col = ''seller_id'' then Some (sort_key L_SellerID)
      else if col = ''status'' then Some (sort_key L_Status)
      else if col = ''condition'' then Some (sort_key L_Condition)
      else if col = ''location'' then Some (sort_key L_Location)
      else if col = ''views'' then Some (sort_key L_Views)
      else None)"

definition Offset :: "int \<Rightarrow> 'a list \<Rightarrow> 'a list" where
  "Offset n rows = (if n > 0 then drop (nat n) rows else rows)"

definition Limit :: "int \<Rightarrow> 'a list \<Rightarrow> 'a list" where
  "Limit n rows = (if n \<ge> 0 then take (nat n) rows else rows)"

definition ex_find :: "string \<Rightarrow> int \<Rightarrow> int \<Rightarrow> Listing list \<Rightarrow> Listing list option" where
  "ex_find clause offset limit rows =
     (case ex_order clause of
        None \<Rightarrow> None
      | Some (col, descending, comment) \<Rightarrow>
         (case ex_column col of
            None \<Rightarrow> None
          | Some by_column \<Rightarrow>
             (let ordered = (if descending then rev (by_column (rev rows)) else by_column rows)
              in Some (if comment then ordered else Limit limit (Offset offset ordered)))))"

definition ex_SQL :: SQL where
  "ex_SQL =
     \<lparr>sql_like = (\<lambda>v p. like_match p v),
      sql_eq_uint = (\<lambda>n v. case sqlite_number v of Some x \<Rightarrow> real n = x | None \<Rightarrow> False),
      sql_ge = (\<lambda>x v. case sqlite_number v of Some y \<Rightarrow> y \<le> x | None \<Rightarrow> False),
      sql_le = (\<lambda>x v. case sqlite_number v of Some y \<Rightarrow> x \<le> y | None \<Rightarrow> True),
      sql_find = ex_find\<rparr>"

subsection \<open>Example data\<close>

text \<open>
  An example store: user 1 (Alice) sells three listings, created at times 1, 2 and 3,
  of which listing 3 is sold; user 2 has a chat on listing 1 with one unread message
  from each side; Alice has one notification, read at time 5.  The example \<open>utils\<close>
  hash a password by prefixing it.
\<close>

definition ex_listing :: Listing where
  "ex_listing = \<lparr>L_ID = 1, L_CreatedAt = 1, L_UpdatedAt = 1, L_DeletedAt = None,
     L_Title = ''Desk'', L_Description = ''Oak desk'', L_Price = 50, L_CategoryID = 3,
     L_SellerID = 1, L_Status = ''active'', L_Condition = ''good'', L_Location = ''Gainesville'',
     L_Views = 0\<rparr>"

definition ex_lamp :: Listing where
  "ex_lamp = ex_listing\<lparr>L_ID := 2, L_CreatedAt := 2, L_UpdatedAt := 2, L_Title := ''Lamp''\<rparr>"

definition ex_bike :: Listing where
  "ex_bike = ex_listing\<lparr>L_ID := 3, L_CreatedAt := 3, L_UpdatedAt := 3, L_Title := ''Bike'',
     L_Status := ''sold''\<rparr>"

definition ex_chat :: Chat where
  "ex_chat = \<lparr>C_ID = 1, C_CreatedAt = 2, C_UpdatedAt = 2, C_ListingID = 1, C_BuyerID = 2, C_SellerID = 1\<rparr>"

definition ex_message :: "uint \<Rightarrow> uint \<Rightarrow> Message" where
  "ex_message i sender = \<lparr>M_ID = i, M_CreatedAt = 2 + i, M_UpdatedAt = 2 + i, M_ChatID = 1,
     M_SenderID = sender, M_Content = ''hello'', M_IsRead = False, M_ReadAt = None\<rparr>"

definition ex_notification :: Notification where
  "ex_notification = \<lparr>N_ID = 1, N_CreatedAt = 3, N_UpdatedAt = 5, N_DeletedAt = None, N_UserID = 1,
     N_Type = ''new_message'', N_Title = ''New Message'', N_Message = ''You have a new message about your listing: Desk'',
     N_Link = ''/chat/1'', N_IsRead = True, N_ReadAt = Some 5\<rparr>"

definition ex_user :: User where
  "ex_user = \<lparr>U_ID = 1, U_CreatedAt = 1, U_UpdatedAt = 1, U_Email = ''alice@ufl.edu'',
     U_Password = ''hash:Abc123!'', U_FirstName = ''Alice'', U_LastName = ''Gator'',
     U_ProfileImage = [], U_Phone = [], U_Bio = [], U_IsAdmin = False\<rparr>"

definition ex_DB :: DB where
  "ex_DB = \<lparr>users = [ex_user], listings = [ex_listing, ex_lamp, ex_bike], listing_images = [],
     chats = [ex_chat], messages = [ex_message 1 2, ex_message 2 1], notifications = [ex_notification]\<rparr>"

definition ex_query :: ListingsQuery where
  "ex_query = \<lparr>q_page = None, q_limit = None, q_search = [], q_category_id = [], q_min_price = [],
     q_max_price = [], q_condition = [], q_sort = None, q_order = None\<rparr>"

definition ex_update :: UpdateListingInput where
  "ex_update = \<lparr>UL_Title = [], UL_Description = [], UL_Price = 0, UL_CategoryID = 0,
     UL_Condition = [], UL_Location = [], UL_Status = ''banana'', UL_Images = []\<rparr>"

definition ex_Utils :: Utils where
  "ex_Utils = \<lparr>valid_email = (\<lambda>e. CHR ''@'' \<in> set e), HashPassword = (\<lambda>p. Some (''hash:'' @ p)),
     CheckPassword = (\<lambda>p h. h = ''hash:'' @ p),
     GenerateToken = (\<lambda>t i e a. Some (''token:'' @ e))\<rparr>"

definition ex_register :: "string \<Rightarrow> RegisterInput" where
  "ex_register e = \<lparr>R_Email = e, R_Password = ''Abc123!'', R_FirstName = ''Alice'', R_LastName = ''Gator''\<rparr>"

section \<open>Properties\<close>

subsection \<open>Facts about the store primitives\<close>

lemma First_None_iff: "First pk cond rows = None \<longleftrightarrow> filter cond rows = []"
  by (simp add: First_def split: list.splits)

lemma First_SomeD: "First pk cond rows = Some r \<Longrightarrow> r \<in> set rows \<and> cond r"
proof -
  assume a: "First pk cond rows = Some r"
  then have ne: "filter cond rows \<noteq> []" and r: "r = arg_min_list pk (filter cond rows)"
    by (auto simp: First_def split: list.splits)
  from arg_min_list_in [OF ne] r have "r \<in> set (filter cond rows)" by simp
  then show ?thesis by simp
qed

lemma arg_min_list_map:
  "xs \<noteq> [] \<Longrightarrow> (\<And>x. pk (f x) = pk x) \<Longrightarrow> arg_min_list pk (map f xs) = f (arg_min_list pk xs)"
  by (induction pk xs rule: arg_min_list.induct) (auto simp: Let_def)

lemma First_update_where:
  assumes "\<And>x. pk (f x) = pk x" and "\<And>x. cond (f x) = cond x"
  shows "First pk cond (update_where p f rows) =
         map_option (\<lambda>r. if p r then f r else r) (First pk cond rows)"
proof -
  let ?g = "\<lambda>r. if p r then f r else r"
  have pk: "\<And>x. pk (?g x) = pk x" using assms by simp
  have c: "\<And>x. cond (?g x) = cond x" using assms by simp
  have fm: "filter cond (map ?g rows) = map ?g (filter cond rows)"
    by (induction rows) (simp_all add: c)
  show ?thesis
  proof (cases "filter cond rows")
    case Nil
    then show ?thesis by (simp add: First_def update_where_def fm)
  next
    case (Cons a as)
    then have ne: "filter cond rows \<noteq> []" by simp
    have "arg_min_list pk (map ?g (filter cond rows)) = ?g (arg_min_list pk (filter cond rows))"
      by (rule arg_min_list_map [OF ne]) (rule pk)
    then show ?thesis using Cons by (simp add: First_def update_where_def fm)
  qed
qed

lemma First_append_new:
  "filter cond rows = [] \<Longrightarrow> cond r \<Longrightarrow> First pk cond (rows @ [r]) = Some r"
  by (simp add: First_def)

lemma length_update_where: "length (update_where cond f rows) = length rows"
  by (simp add: update_where_def)

lemma nth_update_where:
  "k < length rows \<Longrightarrow> update_where cond f rows ! k = (if cond (rows ! k) then f (rows ! k) else rows ! k)"
  by (simp add: update_where_def)

lemmas ex_defs = ex_DB_def empty_DB_def ex_user_def ex_listing_def ex_lamp_def ex_bike_def ex_chat_def ex_message_def ex_notification_def
lemmas db_defs = first_listing_def first_chat_def first_notification_def First_def
   create_message_def touch_chat_def create_chat_def create_notification_def update_where_def next_id_def Let_def
lemmas parse_defs = ParseUint32_def is_digit_def decimal_def

subsection \<open>CreateChat\<close>

lemma CreateChat_success_cases:
  assumes "CreateChat now s u (Some i) = (s', st, ChatMessageBody c m)"
  obtains (existing) l e where
      "CC_ListingID i \<noteq> 0" "first_listing s (CC_ListingID i) = Some l" "L_SellerID l \<noteq> u"
      "First C_ID (\<lambda>c. C_ListingID c = CC_ListingID i \<and> C_BuyerID c = u) (chats s) = Some e"
      "c = C_ID e" "st = 200" "listings s' = listings s"
      "chats s' = update_where (\<lambda>x. C_ID x = C_ID e) (\<lambda>x. x\<lparr>C_UpdatedAt := now\<rparr>) (chats s)"
      "notifications s' = notifications s"
  | (new) l where
      "CC_ListingID i \<noteq> 0" "first_listing s (CC_ListingID i) = Some l" "L_SellerID l \<noteq> u"
      "First C_ID (\<lambda>c. C_ListingID c = CC_ListingID i \<and> C_BuyerID c = u) (chats s) = None"
      "st = 201" "listings s' = listings s"
      "chats s' = chats s @ [\<lparr>C_ID = c, C_CreatedAt = now, C_UpdatedAt = now,
           C_ListingID = CC_ListingID i, C_BuyerID = u, C_SellerID = L_SellerID l\<rparr>]"
  using assms
  by (auto simp: CreateChat_def bind_CreateChatInput_def create_message_def touch_chat_def
        create_chat_def create_notification_def Let_def
      split: option.splits if_splits)

lemma CreateChat_new_chat_notifies_seller:
  assumes "CC_ListingID i \<noteq> 0" "CC_Message i \<noteq> []"
    and "first_listing s (CC_ListingID i) = Some l" "L_SellerID l \<noteq> u"
    and "First C_ID (\<lambda>c. C_ListingID c = CC_ListingID i \<and> C_BuyerID c = u) (chats s) = None"
  shows "status (CreateChat now s u (Some i)) = 201 \<and>
         map N_UserID (notifications (fst (CreateChat now s u (Some i)))) =
           map N_UserID (notifications s) @ [L_SellerID l]"
  using assms
  by (simp add: CreateChat_def bind_CreateChatInput_def create_message_def create_chat_def
        create_notification_def status_def Let_def)

text \<open>
  Claim C1: every successful create-or-append call, in the branch that appends to an
  existing chat as well as in the branch that creates the chat, creates a notification
  for the listing's seller.

  The branch that creates the chat does; the branch that finds the chat returns after
  it has stored the message and touched the chat, before the code that builds the
  notification.  Evaluated on a store where buyer 2 already has a chat on listing 1
  of seller 1: the call succeeds with 200 and the notifications table is unchanged.
\<close>

theorem CreateChat_existing_chat_creates_no_notification:
  "first_listing ex_DB 1 = Some ex_listing \<and> L_SellerID ex_listing = 1 \<and>
   First C_ID (\<lambda>c. C_ListingID c = 1 \<and> C_BuyerID c = 2) (chats ex_DB) = Some ex_chat \<and>
   status (CreateChat 7 ex_DB 2 (Some \<lparr>CC_ListingID = 1, CC_Message = ''still available?''\<rparr>)) = 200 \<and>
   notifications (fst (CreateChat 7 ex_DB 2 (Some \<lparr>CC_ListingID = 1, CC_Message = ''still available?''\<rparr>)))
     = notifications ex_DB"
  by (simp add: CreateChat_def bind_CreateChatInput_def status_def db_defs ex_defs)

text \<open>
  Claim C5 says that create-or-append on a \<open>listing_id\<close> that references no listing
  fails with status 400.  On the example store, listing 9 does not exist and the call
  answers 404.
\<close>

theorem CreateChat_missing_listing_is_404_not_400:
  "first_listing ex_DB 9 = None \<and>
   status (CreateChat 7 ex_DB 2 (Some \<lparr>CC_ListingID = 9, CC_Message = ''still available?''\<rparr>)) = 404 \<and>
   status (CreateChat 7 ex_DB 2 (Some \<lparr>CC_ListingID = 9, CC_Message = ''still available?''\<rparr>)) \<noteq> 400"
  by (simp add: CreateChat_def bind_CreateChatInput_def status_def db_defs ex_defs)

text \<open>
  Claim C5, amended: a well-formed create-or-append request (non-zero \<open>listing_id\<close>,
  non-empty message) whose \<open>listing_id\<close> references no existing listing fails with
  status 404 and the message "Listing not found", and leaves the store unchanged.
\<close>

theorem CreateChat_missing_listing:
  assumes "CC_ListingID input \<noteq> 0" and "CC_Message input \<noteq> []"
    and "first_listing s (CC_ListingID input) = None"
  shows "CreateChat now s userID (Some input) = (s, 404, ErrorBody ''Listing not found'')"
  using assms by (simp add: CreateChat_def bind_CreateChatInput_def)

theorem CreateChat_missing_listing_witness:
  "CC_ListingID \<lparr>CC_ListingID = 9, CC_Message = ''still available?''\<rparr> \<noteq> 0 \<and>
   CC_Message \<lparr>CC_ListingID = 9, CC_Message = ''still available?''\<rparr> \<noteq> [] \<and>
   first_listing ex_DB (CC_ListingID \<lparr>CC_ListingID = 9, CC_Message = ''still available?''\<rparr>) = None \<and>
   CreateChat 7 ex_DB 2 (Some \<lparr>CC_ListingID = 9, CC_Message = ''still available?''\<rparr>)
     = (ex_DB, 404, ErrorBody ''Listing not found'')"
proof -
  have a: "CC_ListingID \<lparr>CC_ListingID = 9, CC_Message = ''still available?''\<rparr> \<noteq> 0" by simp
  have b: "CC_Message \<lparr>CC_ListingID = 9, CC_Message = ''still available?''\<rparr> \<noteq> []" by simp
  have c: "first_listing ex_DB (CC_ListingID \<lparr>CC_ListingID = 9, CC_Message = ''still available?''\<rparr>) = None"
    by (simp add: db_defs ex_defs)
  from CreateChat_missing_listing [OF a b c, of 7 2] a b c show ?thesis by simp
qed

text \<open>
  Claim C8: two successive successful create-or-append calls by the same buyer on the
  same listing, with different message texts, return the same \<open>chat_id\<close>; at most one
  chat exists per (listing, buyer) pair in sequential execution.

  After a successful first call, every second call by the same caller on the same
  listing with a non-empty message succeeds, appends (status 200) and returns the
  \<open>chat_id\<close> of the first call; and a store with at most one chat per pair keeps that
  property.
\<close>

theorem CreateChat_dedup:
  assumes first: "CreateChat t1 s u (Some i1) = (s1, st1, ChatMessageBody c1 m1)"
    and ok: "st1 = 200 \<or> st1 = 201"
    and same: "CC_ListingID i2 = CC_ListingID i1"
    and msg: "CC_Message i2 \<noteq> []"
  shows "(\<exists>s2 m2. CreateChat t2 s1 u (Some i2) = (s2, 200, ChatMessageBody c1 m2)) \<and>
         (distinct (map chat_key (chats s)) \<longrightarrow> distinct (map chat_key (chats s1)))"
proof -
  let ?cond = "\<lambda>c. C_ListingID c = CC_ListingID i1 \<and> C_BuyerID c = u"
  from first show ?thesis
  proof (cases rule: CreateChat_success_cases)
    case (existing l e)
    have "First C_ID ?cond (chats s1) =
            map_option (\<lambda>r. if C_ID r = C_ID e then r\<lparr>C_UpdatedAt := t1\<rparr> else r)
              (First C_ID ?cond (chats s))"
      unfolding existing(8) by (rule First_update_where) simp_all
    then obtain e' where e': "First C_ID ?cond (chats s1) = Some e'" "C_ID e' = c1"
      using existing(4,5) by auto
    have l: "first_listing s1 (CC_ListingID i2) = Some l"
      using existing(2,7) same by (simp add: first_listing_def)
    have call: "\<exists>s2 m2. CreateChat t2 s1 u (Some i2) = (s2, 200, ChatMessageBody c1 m2)"
      using e' l existing(1,3) same msg
      by (simp add: CreateChat_def bind_CreateChatInput_def create_message_def Let_def)
    have "map chat_key (chats s1) = map chat_key (chats s)"
      unfolding existing(8) by (simp add: update_where_def chat_key_def)
    with call show ?thesis by simp
  next
    case (new l)
    let ?chat = "\<lparr>C_ID = c1, C_CreatedAt = t1, C_UpdatedAt = t1, C_ListingID = CC_ListingID i1,
           C_BuyerID = u, C_SellerID = L_SellerID l\<rparr>"
    have none: "filter ?cond (chats s) = []"
      using new(4) by (simp add: First_None_iff)
    have "First C_ID ?cond (chats s1) = Some ?chat"
      unfolding new(7) by (rule First_append_new [OF none]) simp
    moreover have "first_listing s1 (CC_ListingID i2) = Some l"
      using new(2,6) same by (simp add: first_listing_def)
    ultimately have call: "\<exists>s2 m2. CreateChat t2 s1 u (Some i2) = (s2, 200, ChatMessageBody c1 m2)"
      using new(1,3) same msg
      by (simp add: CreateChat_def bind_CreateChatInput_def create_message_def Let_def)
    have "chat_key ?chat \<notin> set (map chat_key (chats s))"
    proof
      assume "chat_key ?chat \<in> set (map chat_key (chats s))"
      then obtain x where "x \<in> set (chats s)" "?cond x"
        by (auto simp: chat_key_def)
      then have "x \<in> set (filter ?cond (chats s))" by simp
      with none show False by simp
    qed
    then have "distinct (map chat_key (chats s)) \<longrightarrow> distinct (map chat_key (chats s1))"
      unfolding new(7) by simp
    with call show ?thesis by simp
  qed
qed


theorem CreateChat_dedup_witness:
  "CreateChat 7 ex_DB 2 (Some \<lparr>CC_ListingID = 2, CC_Message = ''still available?''\<rparr>) =
     (fst (CreateChat 7 ex_DB 2 (Some \<lparr>CC_ListingID = 2, CC_Message = ''still available?''\<rparr>)), 201,
      ChatMessageBody 2 \<lparr>M_ID = 3, M_CreatedAt = 7, M_UpdatedAt = 7, M_ChatID = 2, M_SenderID = 2,
        M_Content = ''still available?'', M_IsRead = False, M_ReadAt = None\<rparr>) \<and>
   (\<exists>s2 m2. CreateChat 8 (fst (CreateChat 7 ex_DB 2 (Some \<lparr>CC_ListingID = 2, CC_Message = ''still available?''\<rparr>)))
        2 (Some \<lparr>CC_ListingID = 2, CC_Message = ''can you do 40?''\<rparr>) = (s2, 200, ChatMessageBody 2 m2)) \<and>
   distinct (map chat_key (chats ex_DB)) \<and>
   distinct (map chat_key (chats (fst (CreateChat 7 ex_DB 2
      (Some \<lparr>CC_ListingID = 2, CC_Message = ''still available?''\<rparr>)))))"
proof -
  let ?i1 = "\<lparr>CC_ListingID = 2, CC_Message = ''still available?''\<rparr>"
  let ?i2 = "\<lparr>CC_ListingID = 2, CC_Message = ''can you do 40?''\<rparr>"
  let ?m1 = "\<lparr>M_ID = 3, M_CreatedAt = 7, M_UpdatedAt = 7, M_ChatID = 2, M_SenderID = 2,
        M_Content = ''still available?'', M_IsRead = False, M_ReadAt = None\<rparr>"
  have first: "CreateChat 7 ex_DB 2 (Some ?i1) =
     (fst (CreateChat 7 ex_DB 2 (Some ?i1)), 201, ChatMessageBody 2 ?m1)"
    by (simp add: CreateChat_def bind_CreateChatInput_def db_defs ex_defs)
  have ok: "(201::nat) = 200 \<or> (201::nat) = 201" by simp
  have same: "CC_ListingID ?i2 = CC_ListingID ?i1" by simp
  have msg: "CC_Message ?i2 \<noteq> []" by simp
  have d: "distinct (map chat_key (chats ex_DB))" by (simp add: ex_defs chat_key_def)
  from CreateChat_dedup [OF first ok same msg, of 8] first d show ?thesis by simp
qed

subsection \<open>GetChatMessages\<close>

text \<open>
  Claim C2: when a participant fetches the message list of a chat, every message of
  that chat that was unread and authored by the other participant becomes read, with
  a read timestamp (the time of the request), and every message authored by the
  caller is left as it was.  Rows are compared position by position in the table.
\<close>

theorem GetChatMessages_read_on_view:
  assumes "ParseUint32 idStr = Some i" and "first_chat s i = Some chat"
    and "C_BuyerID chat = u \<or> C_SellerID chat = u"
  shows "status (GetChatMessages now s u idStr) = 200 \<and>
         length (messages (fst (GetChatMessages now s u idStr))) = length (messages s) \<and>
         (\<forall>k < length (messages s).
            (M_ChatID (messages s ! k) = i \<and> M_SenderID (messages s ! k) \<noteq> u \<and>
               \<not> M_IsRead (messages s ! k) \<longrightarrow>
               M_IsRead (messages (fst (GetChatMessages now s u idStr)) ! k) \<and>
               M_ReadAt (messages (fst (GetChatMessages now s u idStr)) ! k) = Some now \<and>
               M_ID (messages (fst (GetChatMessages now s u idStr)) ! k) = M_ID (messages s ! k)) \<and>
            (M_SenderID (messages s ! k) = u \<longrightarrow>
               messages (fst (GetChatMessages now s u idStr)) ! k = messages s ! k))"
  using assms
  by (auto simp: GetChatMessages_def status_def Let_def length_update_where nth_update_where)

theorem GetChatMessages_read_on_view_witness:
  "ParseUint32 ''1'' = Some 1 \<and> first_chat ex_DB 1 = Some ex_chat \<and>
   (C_BuyerID ex_chat = 1 \<or> C_SellerID ex_chat = 1) \<and>
   messages ex_DB = [ex_message 1 2, ex_message 2 1] \<and>
   status (GetChatMessages 9 ex_DB 1 ''1'') = 200 \<and>
   messages (fst (GetChatMessages 9 ex_DB 1 ''1'')) =
     [(ex_message 1 2)\<lparr>M_IsRead := True, M_ReadAt := Some 9, M_UpdatedAt := 9\<rparr>, ex_message 2 1]"
proof -
  have a: "ParseUint32 ''1'' = Some 1" by (simp add: parse_defs)
  have b: "first_chat ex_DB 1 = Some ex_chat" by (simp add: db_defs ex_defs)
  have c: "C_BuyerID ex_chat = 1 \<or> C_SellerID ex_chat = 1" by (simp add: ex_defs)
  have m: "messages ex_DB = [ex_message 1 2, ex_message 2 1]" by (simp add: ex_DB_def)
  have e: "messages (fst (GetChatMessages 9 ex_DB 1 ''1'')) =
     [(ex_message 1 2)\<lparr>M_IsRead := True, M_ReadAt := Some 9, M_UpdatedAt := 9\<rparr>, ex_message 2 1]"
    by (simp add: GetChatMessages_def parse_defs db_defs ex_defs)
  from GetChatMessages_read_on_view [OF a b c, of 9] a b c m e show ?thesis by simp
qed

subsection \<open>MarkNotificationRead\<close>

text \<open>
  Claim C7 says that marking an already-read notification read again is a no-op that
  leaves its state, read timestamp included, unchanged.  On the example store the
  notification of user 1 was read at time 5; marking it read at time 9 succeeds and
  rewrites the read timestamp to 9.
\<close>

theorem MarkNotificationRead_rewrites_read_timestamp:
  "first_notification ex_DB 1 = Some ex_notification \<and> N_UserID ex_notification = 1 \<and>
   N_IsRead ex_notification \<and> N_ReadAt ex_notification = Some 5 \<and>
   status (MarkNotificationRead 9 ex_DB 1 ''1'') = 200 \<and>
   map N_ReadAt (notifications (fst (MarkNotificationRead 9 ex_DB 1 ''1''))) = [Some 9] \<and>
   notifications (fst (MarkNotificationRead 9 ex_DB 1 ''1'')) \<noteq> notifications ex_DB"
  by (simp add: MarkNotificationRead_def status_def parse_defs db_defs ex_defs)

text \<open>
  Claim C7, amended: for the owning caller, marking an already-read notification read
  again succeeds (status 200, "Marked as read"); the notification stays read and keeps
  every field except its read timestamp and its update stamp, which become the time of
  the call; no other notification and no other table changes.
\<close>

theorem MarkNotificationRead_already_read:
  assumes p: "ParseUint32 idStr = Some i" and f: "first_notification s i = Some n"
    and own: "N_UserID n = u" and rd: "N_IsRead n"
  shows "snd (MarkNotificationRead now s u idStr) = (200, MessageBody ''Marked as read'') \<and>
         first_notification (fst (MarkNotificationRead now s u idStr)) i =
           Some (n\<lparr>N_ReadAt := Some now, N_UpdatedAt := now\<rparr>) \<and>
         length (notifications (fst (MarkNotificationRead now s u idStr))) = length (notifications s) \<and>
         (\<forall>k < length (notifications s). N_ID (notifications s ! k) \<noteq> i \<longrightarrow>
            notifications (fst (MarkNotificationRead now s u idStr)) ! k = notifications s ! k) \<and>
         (fst (MarkNotificationRead now s u idStr))\<lparr>notifications := notifications s\<rparr> = s"
proof -
  let ?cond = "\<lambda>x. N_ID x = i \<and> N_DeletedAt x = None"
  let ?f = "\<lambda>x. x\<lparr>N_IsRead := True, N_ReadAt := Some now, N_UpdatedAt := now\<rparr>"
  let ?s' = "s\<lparr>notifications := update_where (\<lambda>x. N_ID x = N_ID n \<and> N_DeletedAt x = None) ?f (notifications s)\<rparr>"
  from First_SomeD [OF f [unfolded first_notification_def]] have ni: "N_ID n = i" "N_DeletedAt n = None"
    by simp_all
  have res: "MarkNotificationRead now s u idStr = (?s', 200, MessageBody ''Marked as read'')"
    using p f own by (simp add: MarkNotificationRead_def Let_def)
  have "First N_ID ?cond (update_where ?cond ?f (notifications s)) =
          map_option (\<lambda>r. if ?cond r then ?f r else r) (First N_ID ?cond (notifications s))"
    by (rule First_update_where) simp_all
  then have "first_notification ?s' i = Some (?f n)"
    using f ni by (simp add: first_notification_def)
  moreover have "?f n = n\<lparr>N_ReadAt := Some now, N_UpdatedAt := now\<rparr>"
    using rd by (cases n) simp
  ultimately have a: "first_notification ?s' i = Some (n\<lparr>N_ReadAt := Some now, N_UpdatedAt := now\<rparr>)"
    by simp
  show ?thesis
    unfolding res using a ni by (simp add: length_update_where nth_update_where)
qed

theorem MarkNotificationRead_already_read_witness:
  "ParseUint32 ''1'' = Some 1 \<and> first_notification ex_DB 1 = Some ex_notification \<and>
   N_UserID ex_notification = 1 \<and> N_IsRead ex_notification \<and>
   snd (MarkNotificationRead 9 ex_DB 1 ''1'') = (200, MessageBody ''Marked as read'') \<and>
   first_notification (fst (MarkNotificationRead 9 ex_DB 1 ''1'')) 1 =
     Some (ex_notification\<lparr>N_ReadAt := Some 9, N_UpdatedAt := 9\<rparr>)"
proof -
  have a: "ParseUint32 ''1'' = Some 1" by (simp add: parse_defs)
  have b: "first_notification ex_DB 1 = Some ex_notification" by (simp add: db_defs ex_defs)
  have c: "N_UserID ex_notification = 1" by (simp add: ex_defs)
  have d: "N_IsRead ex_notification" by (simp add: ex_defs)
  from MarkNotificationRead_already_read [OF a b c d, of 9] a b c d show ?thesis by simp
qed

subsection \<open>64-bit arithmetic\<close>






subsection \<open>GetListings\<close>

lemma matching_page [simp]: "matching eng (q\<lparr>q_page := x\<rparr>) = matching eng q"
  by (rule ext) (simp add: matching_def)

lemma GetListings_unfold:
  "GetListings eng s q =
     (case sql_find eng (order_clause q)
             (wrap64 (wrap64 (page_of (q_page q) - 1) * limit_of q)) (limit_of q)
             (matching_rows eng s q) of
        None \<Rightarrow> (s, 500, ErrorBody ''Error fetching listings'')
      | Some found \<Rightarrow>
          if limit_of q = 0 then (s, 500, Recovered)
          else (s, 200,
                ListingsBody found
                  (int (length (matching_rows eng s q))) (page_of (q_page q)) (limit_of q)
                  (wrap64 (tdiv (wrap64 (wrap64 (int (length (matching_rows eng s q)) + limit_of q) - 1))
                     (limit_of q)))))"
  by (simp add: GetListings_def Let_def order_clause_def matching_rows_def limit_of_def page_of_def
        split: option.split)

lemma page_independent [simp]:
  "order_clause (q\<lparr>q_page := x\<rparr>) = order_clause q"
  "matching_rows eng s (q\<lparr>q_page := x\<rparr>) = matching_rows eng s q"
  "limit_of (q\<lparr>q_page := x\<rparr>) = limit_of q"
  by (simp_all add: order_clause_def matching_rows_def limit_of_def)










subsection \<open>The example engine\<close>



lemma ex_column_set: "ex_column col = Some by_column \<Longrightarrow> set (by_column rows) = set rows"
  by (auto simp: ex_column_def split: if_splits)

lemma set_Limit: "set (Limit n xs) \<subseteq> set xs"
  by (auto simp: Limit_def dest: in_set_takeD)

lemma set_Offset: "set (Offset n xs) \<subseteq> set xs"
  by (auto simp: Offset_def dest: in_set_dropD)

lemma finds_among_ex_SQL: "finds_among ex_SQL"
proof -
  have "set found \<subseteq> set rows" if "ex_find clause offset limit rows = Some found"
    for clause offset limit rows found
  proof -
    from that obtain col descending comment by_column where
      c: "ex_column col = Some by_column" and
      f: "found = (if comment then (if descending then rev (by_column (rev rows)) else by_column rows)
                   else Limit limit (Offset offset
                          (if descending then rev (by_column (rev rows)) else by_column rows)))"
      by (auto simp: ex_find_def Let_def split: option.splits prod.splits)
    have "set (if descending then rev (by_column (rev rows)) else by_column rows) = set rows"
      using ex_column_set [OF c] by simp
    then show ?thesis
      unfolding f using set_Limit set_Offset by (cases comment) fastforce+
  qed
  then show ?thesis by (simp add: finds_among_def ex_SQL_def)
qed





subsection \<open>GetListing and the status filter\<close>

lemma page_items_matching:
  assumes among: "finds_among eng" and x: "x \<in> set (page_items (GetListings eng s q))"
  shows "x \<in> set (listings s) \<and> matching eng q x"
proof (cases "sql_find eng (order_clause q)
                (wrap64 (wrap64 (page_of (q_page q) - 1) * limit_of q)) (limit_of q)
                (matching_rows eng s q)")
  case None
  with x show ?thesis by (simp add: GetListings_unfold page_items_def body_of_def)
next
  case (Some found)
  have sub: "set found \<subseteq> set (matching_rows eng s q)"
    using among Some unfolding finds_among_def by blast
  from x Some have "x \<in> set found"
    by (simp add: GetListings_unfold page_items_def body_of_def split: if_splits)
  with sub show ?thesis by (auto simp: matching_rows_def)
qed

text \<open>
  Claim C6: a listing whose status is \<open>sold\<close>, or any status other than \<open>active\<close>,
  never appears in the results of the listing search, whatever the filters, and is
  still returned by the fetch by id.  The listing is one that the store holds (it is
  found by its id, so it is not soft-deleted); the fetch answers 200 with the listing,
  its view counter incremented.  The search is taken with any request, sort and order
  included, on an engine whose page query returns only rows that satisfy the \<open>WHERE\<close>
  clause.
\<close>

theorem non_active_listing_hidden_but_fetchable:
  assumes among: "finds_among eng"
    and p: "ParseUint32 idStr = Some i" and f: "first_listing s i = Some l"
    and st: "L_Status l \<noteq> StatusActive"
  shows "(\<forall>q. l \<notin> set (page_items (GetListings eng s q))) \<and>
         (\<forall>q. \<forall>x \<in> set (page_items (GetListings eng s q)). L_Status x = StatusActive) \<and>
         status (GetListing now s idStr) = 200 \<and>
         body_of (GetListing now s idStr) =
           ListingBody (l\<lparr>L_Views := wrap64 (L_Views l + 1), L_UpdatedAt := now\<rparr>)"
proof -
  have act: "L_Status x = StatusActive" if "x \<in> set (page_items (GetListings eng s q))" for x q
    using page_items_matching [OF among that] by (simp add: matching_def)
  then have "l \<notin> set (page_items (GetListings eng s q))" for q
    using st by blast
  moreover have "status (GetListing now s idStr) = 200 \<and>
         body_of (GetListing now s idStr) =
           ListingBody (l\<lparr>L_Views := wrap64 (L_Views l + 1), L_UpdatedAt := now\<rparr>)"
    using p f by (simp add: GetListing_def Let_def status_def body_of_def)
  ultimately show ?thesis using act by blast
qed

theorem non_active_listing_hidden_but_fetchable_witness:
  "finds_among ex_SQL \<and> ParseUint32 ''3'' = Some 3 \<and>
   first_listing ex_DB 3 = Some ex_bike \<and> L_Status ex_bike = ''sold'' \<and>
   L_Status ex_bike \<noteq> StatusActive \<and>
   ex_bike \<notin> set (page_items (GetListings ex_SQL ex_DB ex_query)) \<and>
   ex_bike \<notin> set (page_items (GetListings ex_SQL ex_DB (ex_query\<lparr>q_order := Some ''--''\<rparr>))) \<and>
   status (GetListing 9 ex_DB ''3'') = 200 \<and>
   body_of (GetListing 9 ex_DB ''3'') = ListingBody (ex_bike\<lparr>L_Views := 1, L_UpdatedAt := 9\<rparr>)"
proof -
  have p: "ParseUint32 ''3'' = Some 3" by (simp add: parse_defs)
  have f: "first_listing ex_DB 3 = Some ex_bike" by (simp add: db_defs ex_defs ex_lamp_def ex_bike_def)
  have sold: "L_Status ex_bike = ''sold''" by (simp add: ex_bike_def)
  have st: "L_Status ex_bike \<noteq> StatusActive" by (simp add: StatusActive_def ex_bike_def)
  have v: "wrap64 (L_Views ex_bike + 1) = 1" by (simp add: wrap64_def ex_defs ex_bike_def)
  from non_active_listing_hidden_but_fetchable [OF finds_among_ex_SQL p f st, of 9]
  have "ex_bike \<notin> set (page_items (GetListings ex_SQL ex_DB ex_query)) \<and>
        ex_bike \<notin> set (page_items (GetListings ex_SQL ex_DB (ex_query\<lparr>q_order := Some ''--''\<rparr>))) \<and>
        status (GetListing 9 ex_DB ''3'') = 200 \<and>
        body_of (GetListing 9 ex_DB ''3'') = ListingBody (ex_bike\<lparr>L_Views := wrap64 (L_Views ex_bike + 1), L_UpdatedAt := 9\<rparr>)"
    by blast
  with p f sold st finds_among_ex_SQL show ?thesis by (simp add: v)
qed

subsection \<open>UpdateListing\<close>

lemma listings_replace_images [simp]: "listings (replace_images now s i urls) = listings s"
proof -
  have "listings (foldl (\<lambda>st (k, url). create_image now st i url (k = 0)) s0 xs) = listings s0"
    for s0 and xs :: "(nat \<times> string) list"
    by (induction xs arbitrary: s0) (auto simp: create_image_def)
  then show ?thesis by (simp add: replace_images_def Let_def)
qed

lemma merge_listing_fixed [simp]:
  "L_ID (merge_listing l input) = L_ID l" "L_DeletedAt (merge_listing l input) = L_DeletedAt l"
  "L_SellerID (merge_listing l input) = L_SellerID l"
  "UL_Status input \<noteq> [] \<Longrightarrow> L_Status (merge_listing l input) = UL_Status input"
  by (simp_all add: merge_listing_def Let_def)

lemma First_replace_all:
  assumes "First pk cond rows = Some r" and "cond v"
  shows "First pk cond (update_where cond (\<lambda>_. v) rows) = Some v"
proof -
  have ne: "filter cond rows \<noteq> []" using assms(1) by (auto simp: First_def split: list.splits)
  have fm: "filter cond (map (\<lambda>r. if cond r then v else r) rows) = map (\<lambda>_. v) (filter cond rows)"
    using assms(2) by (induction rows) simp_all
  let ?ys = "map (\<lambda>_. v) (filter cond rows)"
  have ne': "?ys \<noteq> []" using ne by simp
  from arg_min_list_in [OF ne', of pk] have v: "arg_min_list pk ?ys = v" by auto
  from ne' obtain y ys where ys: "?ys = y # ys" by (cases ?ys) auto
  have "First pk cond (update_where cond (\<lambda>_. v) rows) = Some (arg_min_list pk ?ys)"
    unfolding First_def update_where_def fm ys by simp
  with v show ?thesis by simp
qed

text \<open>
  Claim C10: the listing update does not validate the status field.  Whatever
  non-empty status string the owning seller sends is stored as it is; with
  \<open>banana\<close> the stored status is outside \<open>{active, sold, inactive}\<close>.
\<close>

theorem UpdateListing_stores_any_status:
  assumes p: "ParseUint32 idStr = Some i" and f: "first_listing s i = Some l"
    and own: "L_SellerID l = u" and st: "UL_Status input \<noteq> []"
  shows "status (UpdateListing now s u idStr (Some input)) = 200 \<and>
         map_option L_Status (first_listing (fst (UpdateListing now s u idStr (Some input))) i) =
           Some (UL_Status input)"
proof -
  let ?cond = "\<lambda>x. L_ID x = i \<and> L_DeletedAt x = None"
  let ?saved = "(merge_listing l input)\<lparr>L_UpdatedAt := now\<rparr>"
  from First_SomeD [OF f [unfolded first_listing_def]] have li: "L_ID l = i" "L_DeletedAt l = None"
    by simp_all
  have c: "?cond ?saved" using li by simp
  have "First L_ID ?cond (update_where ?cond (\<lambda>_. ?saved) (listings s)) = Some ?saved"
    by (rule First_replace_all [OF f [unfolded first_listing_def] c])
  then have r: "first_listing (fst (UpdateListing now s u idStr (Some input))) i = Some ?saved"
    using p f own li by (simp add: UpdateListing_def Let_def first_listing_def)
  have "status (UpdateListing now s u idStr (Some input)) = 200"
    using p f own by (simp add: UpdateListing_def Let_def status_def)
  with r st show ?thesis by simp
qed

theorem UpdateListing_stores_any_status_witness:
  "ParseUint32 ''1'' = Some 1 \<and> first_listing ex_DB 1 = Some ex_listing \<and>
   L_SellerID ex_listing = 1 \<and> UL_Status ex_update \<noteq> [] \<and>
   status (UpdateListing 9 ex_DB 1 ''1'' (Some ex_update)) = 200 \<and>
   map_option L_Status (first_listing (fst (UpdateListing 9 ex_DB 1 ''1'' (Some ex_update))) 1) =
     Some ''banana'' \<and>
   ''banana'' \<notin> {StatusActive, StatusSold, StatusInactive}"
proof -
  have p: "ParseUint32 ''1'' = Some 1" by (simp add: parse_defs)
  have f: "first_listing ex_DB 1 = Some ex_listing" by (simp add: db_defs ex_defs)
  have own: "L_SellerID ex_listing = 1" by (simp add: ex_defs)
  have st: "UL_Status ex_update \<noteq> []" by (simp add: ex_update_def)
  have b: "''banana'' \<notin> {StatusActive, StatusSold, StatusInactive}"
    by (simp add: StatusActive_def StatusSold_def StatusInactive_def)
  from UpdateListing_stores_any_status [OF p f own st, of 9] p f own st b show ?thesis
    by (simp add: ex_update_def)
qed

subsection \<open>Register and Login\<close>

lemmas auth_eval_defs = Register_def Login_def first_user_by_email_def create_user_def
  ToLower_def ToLower_char_def HasSuffix_def ToResponse_def ex_Utils_def ex_register_def
  First_def next_id_def status_def Let_def

text \<open>
  Claim C4: when a registration succeeds, a second registration with the same email
  address in any casing fails with Conflict (status 409).

  The handler looks the email up as it was typed, and stores it in lower case.  After
  \<open>Alice@ufl.edu\<close> is registered (stored as \<open>alice@ufl.edu\<close>), a registration of
  \<open>ALICE@ufl.edu\<close> passes the lookup, is rejected by the unique index of the table, and is
  answered 500 "Error creating user"; a second registration of \<open>alice@ufl.edu\<close> is
  answered 409.
\<close>

theorem Register_other_casing_is_500_not_409:
  "status (Register ex_Utils 1 empty_DB (Some (ex_register ''Alice@ufl.edu''))) = 201 \<and>
   map U_Email (users (fst (Register ex_Utils 1 empty_DB (Some (ex_register ''Alice@ufl.edu''))))) =
     [''alice@ufl.edu''] \<and>
   ToLower ''ALICE@ufl.edu'' = ToLower ''Alice@ufl.edu'' \<and>
   snd (Register ex_Utils 2 (fst (Register ex_Utils 1 empty_DB (Some (ex_register ''Alice@ufl.edu''))))
          (Some (ex_register ''ALICE@ufl.edu''))) = (500, ErrorBody ''Error creating user'') \<and>
   status (Register ex_Utils 2 (fst (Register ex_Utils 1 empty_DB (Some (ex_register ''Alice@ufl.edu''))))
          (Some (ex_register ''alice@ufl.edu''))) = 409"
  by (simp add: auth_eval_defs empty_DB_def)

text \<open>
  Claim C9: a login with a registered email and a wrong password, and a login with an
  email that no user has, get the same failure response: status 401 with the same
  message.  Both requests are well-formed (they pass the binder), and neither changes
  the store.
\<close>

theorem Login_failures_indistinguishable:
  assumes a: "LI_Email a \<noteq> []" "valid_email env (LI_Email a)" "LI_Password a \<noteq> []"
    and b: "LI_Email b \<noteq> []" "valid_email env (LI_Email b)" "LI_Password b \<noteq> []"
    and unknown: "first_user_by_email s (ToLower (LI_Email a)) = None"
    and known: "first_user_by_email s (ToLower (LI_Email b)) = Some user"
    and wrong: "\<not> CheckPassword env (LI_Password b) (U_Password user)"
  shows "Login env now s (Some a) = (s, 401, ErrorBody ''Invalid email or password. Please try again.'') \<and>
         Login env now s (Some b) = Login env now s (Some a)"
  using assms by (simp add: Login_def)

theorem Login_failures_indistinguishable_witness:
  "first_user_by_email ex_DB (ToLower ''bob@ufl.edu'') = None \<and>
   first_user_by_email ex_DB (ToLower ''Alice@ufl.edu'') = Some ex_user \<and>
   \<not> CheckPassword ex_Utils ''wrong-password'' (U_Password ex_user) \<and>
   Login ex_Utils 9 ex_DB (Some \<lparr>LI_Email = ''bob@ufl.edu'', LI_Password = ''Abc123!''\<rparr>) =
     (ex_DB, 401, ErrorBody ''Invalid email or password. Please try again.'') \<and>
   Login ex_Utils 9 ex_DB (Some \<lparr>LI_Email = ''Alice@ufl.edu'', LI_Password = ''wrong-password''\<rparr>) =
     Login ex_Utils 9 ex_DB (Some \<lparr>LI_Email = ''bob@ufl.edu'', LI_Password = ''Abc123!''\<rparr>)"
proof -
  let ?a = "\<lparr>LI_Email = ''bob@ufl.edu'', LI_Password = ''Abc123!''\<rparr>"
  let ?b = "\<lparr>LI_Email = ''Alice@ufl.edu'', LI_Password = ''wrong-password''\<rparr>"
  have a: "LI_Email ?a \<noteq> []" "valid_email ex_Utils (LI_Email ?a)" "LI_Password ?a \<noteq> []"
    by (simp_all add: ex_Utils_def)
  have b: "LI_Email ?b \<noteq> []" "valid_email ex_Utils (LI_Email ?b)" "LI_Password ?b \<noteq> []"
    by (simp_all add: ex_Utils_def)
  have unknown: "first_user_by_email ex_DB (ToLower (LI_Email ?a)) = None"
    by (simp add: auth_eval_defs ex_defs)
  have known: "first_user_by_email ex_DB (ToLower (LI_Email ?b)) = Some ex_user"
    by (simp add: auth_eval_defs ex_defs)
  have wrong: "\<not> CheckPassword ex_Utils (LI_Password ?b) (U_Password ex_user)"
    by (simp add: ex_Utils_def ex_user_def)
  from Login_failures_indistinguishable [OF a b unknown known wrong, of 9] unknown known wrong
  show ?thesis by simp
qed

end
